theory Spec2Isabelle
  imports Complex_Main "HOL-Library.Monad_Syntax"
begin

section \<open>Adaptive interview flow: data model\<close>

text \<open>
  The flow engine lives in \<^verbatim>\<open>lib/adaptive-flow\<close>. Its records are TypeScript
  interfaces. JavaScript numbers are modelled as \<open>int\<close>: every number the engine
  stores is produced from integers by \<open>+ 1\<close>, \<open>- 1\<close>, \<open>Math.min\<close>,
  \<open>Math.max\<close> and \<open>Math.round\<close>, so integer inputs give integer states.
  The field \<open>mvpKeywords\<close> of \<open>ResponseAnalysis\<close> is called
  \<open>analysis_mvpKeywords\<close> here, the field of the same name of
  \<open>AdaptiveFlowState\<close> keeps its name.
\<close>

record QuestionRecord =
  question :: string
  timestamp :: string
  difficulty :: int
  category :: string

record ResponseAnalysis =
  analysis_mvpKeywords :: "string list"
  confidence :: int
  technicalAccuracy :: int
  completeness :: int
  overallScore :: int
  suggestedNextDifficulty :: int
  reasoning :: string

record AdaptiveFlowState =
  sessionId :: string
  currentDifficulty :: int
  baseDifficulty :: int
  consecutiveCorrect :: int
  consecutiveIncorrect :: int
  totalQuestions :: int
  questionsAsked :: int
  mvpKeywords :: "string list"
  role :: string
  techStack :: "string list"
  questionHistory :: "QuestionRecord list"
  lastAnalysis :: "ResponseAnalysis option"

text \<open>
  The object literal that \<open>initializeFlowState\<close> builds before it stores it.
\<close>

definition fresh_flowState ::
  "string \<Rightarrow> string \<Rightarrow> string list \<Rightarrow> int \<Rightarrow> int \<Rightarrow> AdaptiveFlowState" where
  "fresh_flowState sid rl stack base total_n =
     \<lparr> sessionId = sid,
       currentDifficulty = base,
       baseDifficulty = base,
       consecutiveCorrect = 0,
       consecutiveIncorrect = 0,
       totalQuestions = total_n,
       questionsAsked = 0,
       mvpKeywords = [],
       role = rl,
       techStack = stack,
       questionHistory = [],
       lastAnalysis = None \<rparr>"

section \<open>The difficulty controller: \<open>updateFlowState\<close>\<close>

text \<open>
  The blend \<^verbatim>\<open>Math.round(0.7 * current + 0.3 * suggestion)\<close> is computed in
  IEEE doubles. For integers \<open>c\<close> and \<open>s\<close> the exact value is \<open>(7c + 3s) / 10\<close>,
  whose fractional part is a multiple of one tenth; the rounding error of the two
  products and the sum is many orders of magnitude below one tenth, so away from the
  exact ties \<open>x.5\<close> the double computation rounds as the exact value does, to
  \<open>(7c + 3s + 5) div 10\<close>. At an exact tie the double may lie just below the tie
  (\<open>0.7 * 6 + 0.3 * 1\<close> is \<open>4.499999999999999\<close>, rounded to 4) or on it
  (\<open>0.7 * 5 + 0.3 * 10\<close> is \<open>6.5\<close>, rounded to 7). The direction taken at a tie
  is therefore a parameter \<open>tie_up\<close> of the model, and every theorem below holds
  for every choice of it.
\<close>

type_synonym tie_policy = "int \<Rightarrow> int \<Rightarrow> bool"

definition Math_round_blend :: "tie_policy \<Rightarrow> int \<Rightarrow> int \<Rightarrow> int" where
  "Math_round_blend tie_up c s =
     (let n = 7 * c + 3 * s in
      if n mod 10 = 5 then (if tie_up c s then n div 10 + 1 else n div 10)
      else (n + 5) div 10)"

definition half_up :: tie_policy where
  "half_up c s = True"

text \<open>
  \<open>updateFlowState\<close>, statement by statement: the keyword merge, the streak
  counters, the cascade for the new difficulty, the clamp around the base difficulty,
  and the three final assignments. The source copies the state
  (\<^verbatim>\<open>{ ...flowState }\<close>) and assigns to the copy; the model returns the
  updated record.
\<close>

definition updateFlowState ::
  "tie_policy \<Rightarrow> AdaptiveFlowState \<Rightarrow> ResponseAnalysis \<Rightarrow> AdaptiveFlowState" where
  "updateFlowState tie_up flowState analysis =
     (let newKeywords = filter (\<lambda>keyword. keyword \<notin> set (mvpKeywords flowState))
                          (analysis_mvpKeywords analysis);
          s1 = flowState\<lparr>mvpKeywords := mvpKeywords flowState @ newKeywords\<rparr>;
          s2 = (if overallScore analysis \<ge> 7
                then s1\<lparr>consecutiveCorrect := consecutiveCorrect s1 + 1,
                        consecutiveIncorrect := 0\<rparr>
                else if overallScore analysis \<le> 4
                then s1\<lparr>consecutiveIncorrect := consecutiveIncorrect s1 + 1,
                        consecutiveCorrect := 0\<rparr>
                else s1);
          (newDifficulty, s3) =
             (if consecutiveCorrect s2 \<ge> 3
              then (min 10 (currentDifficulty s2 + 1), s2\<lparr>consecutiveCorrect := 0\<rparr>)
              else if consecutiveIncorrect s2 \<ge> 2
              then (max 1 (currentDifficulty s2 - 1), s2\<lparr>consecutiveIncorrect := 0\<rparr>)
              else (Math_round_blend tie_up (currentDifficulty s2)
                      (suggestedNextDifficulty analysis), s2));
          maxDeviation = 3;
          clamped = max (baseDifficulty s3 - maxDeviation)
                        (min (baseDifficulty s3 + maxDeviation) newDifficulty)
      in s3\<lparr>currentDifficulty := clamped,
             questionsAsked := questionsAsked s3 + 1,
             lastAnalysis := Some analysis\<rparr>)"

text \<open>A run of rounds: one \<open>updateFlowState\<close> per analysis, in order.\<close>

definition advance_all ::
  "tie_policy \<Rightarrow> AdaptiveFlowState \<Rightarrow> ResponseAnalysis list \<Rightarrow> AdaptiveFlowState" where
  "advance_all tie_up flowState analyses = foldl (updateFlowState tie_up) flowState analyses"

definition shouldContinueInterview :: "AdaptiveFlowState \<Rightarrow> bool" where
  "shouldContinueInterview flowState \<longleftrightarrow> questionsAsked flowState < totalQuestions flowState"

text \<open>The ranges the interface comments give: a 1-10 scale for every score.\<close>

definition in_scale :: "int \<Rightarrow> bool" where
  "in_scale n \<longleftrightarrow> 1 \<le> n \<and> n \<le> 10"

definition valid_analysis :: "ResponseAnalysis \<Rightarrow> bool" where
  "valid_analysis a \<longleftrightarrow>
     in_scale (confidence a) \<and> in_scale (technicalAccuracy a) \<and> in_scale (completeness a) \<and>
     in_scale (overallScore a) \<and> in_scale (suggestedNextDifficulty a)"

definition valid_difficulties :: "AdaptiveFlowState \<Rightarrow> bool" where
  "valid_difficulties s \<longleftrightarrow>
     in_scale (baseDifficulty s) \<and> in_scale (currentDifficulty s) \<and>
     \<bar>currentDifficulty s - baseDifficulty s\<bar> \<le> 3"

definition streaks_exclusive :: "AdaptiveFlowState \<Rightarrow> bool" where
  "streaks_exclusive s \<longleftrightarrow>
     (consecutiveCorrect s = 0 \<or> consecutiveIncorrect s = 0) \<and>
     0 \<le> consecutiveCorrect s \<and> 0 \<le> consecutiveIncorrect s"

definition scored_analysis :: "int \<Rightarrow> int \<Rightarrow> ResponseAnalysis" where
  "scored_analysis score suggestion =
     \<lparr> analysis_mvpKeywords = [], confidence = 5, technicalAccuracy = 5, completeness = 5,
       overallScore = score, suggestedNextDifficulty = suggestion, reasoning = [] \<rparr>"

definition keyword_analysis :: "string list \<Rightarrow> ResponseAnalysis" where
  "keyword_analysis ks =
     \<lparr> analysis_mvpKeywords = ks, confidence = 5, technicalAccuracy = 5, completeness = 5,
       overallScore = 5, suggestedNextDifficulty = 5, reasoning = [] \<rparr>"

section \<open>Collaborators: text generation, JSON, persistence\<close>

text \<open>
  The engine talks to three things it does not own: \<open>generateText\<close> of the AI SDK,
  the built-in \<open>JSON.parse\<close>, and the Firestore collection
  \<open>adaptive_flow_states\<close>. What they answer is an input of the model:
  \<^item> a call of \<open>generateText\<close> either rejects or resolves to a text; the prompt
    only influences what the service answers, so the prompt texts are not modelled;
  \<^item> \<open>JSON.parse\<close> is a parameter, a function from a text to a parsed value or to
    \<open>None\<close> (the \<open>SyntaxError\<close> it throws); a parsed object is the list of
    its properties, each key once, and the numbers of the model are the integers;
  \<^item> a document write either rejects and leaves the collection as it was, or replaces
    the whole document; a read either rejects or returns the stored document.
  Every call is appended to a log, so that a theorem can say which collaborators a
  request reached.
\<close>

datatype jsval =
    JNull
  | JBool bool
  | JNum int
  | JStr string
  | JArr "jsval list"
  | JObj "(string \<times> jsval) list"

datatype error = GenerationError | PersistenceError | TypeError

datatype call = GenerateText | DbSet string | DbGet string

record world =
  store :: "string \<rightharpoonup> AdaptiveFlowState"
  calls :: "call list"

text \<open>
  The answers of the collaborators during one request, numbered in program order:
  the \<open>k\<close>-th call of \<open>generateText\<close>, the \<open>k\<close>-th write and the \<open>k\<close>-th read
  (counting from 0), and the clock read by \<^verbatim>\<open>new Date().toISOString()\<close>.
  The last field, \<open>coerced\<close>, belongs to the JavaScript runtime: the scores and
  keywords that its property reads and coercions make of a parsed value that is not a
  well-typed analysis (see \<open>read_analysis\<close> below).
\<close>

record collaborators =
  JSON_parse :: "string \<Rightarrow> jsval option"
  generateText_reply :: "nat \<Rightarrow> error + string"
  set_ok :: "nat \<Rightarrow> bool"
  get_ok :: "nat \<Rightarrow> bool"
  toISOString_now :: string
  coerced :: "jsval \<Rightarrow> ResponseAnalysis"

definition generateText :: "error + string \<Rightarrow> world \<Rightarrow> (error + string) \<times> world" where
  "generateText reply w = (reply, w\<lparr>calls := calls w @ [GenerateText]\<rparr>)"

definition db_set ::
  "bool \<Rightarrow> string \<Rightarrow> AdaptiveFlowState \<Rightarrow> world \<Rightarrow> (error + unit) \<times> world" where
  "db_set ok key doc w =
     (if ok then (Inr (), w\<lparr>store := (store w)(key \<mapsto> doc), calls := calls w @ [DbSet key]\<rparr>)
      else (Inl PersistenceError, w\<lparr>calls := calls w @ [DbSet key]\<rparr>))"

text \<open>
  \<open>getFlowState\<close> wraps the read in \<^verbatim>\<open>try\<close>: a rejected read is logged and
  answered with \<^verbatim>\<open>null\<close>, as a missing document is.
\<close>

definition getFlowState :: "bool \<Rightarrow> string \<Rightarrow> world \<Rightarrow> AdaptiveFlowState option \<times> world" where
  "getFlowState ok sid w =
     (if ok then store w sid else None, w\<lparr>calls := calls w @ [DbGet sid]\<rparr>)"

subsection \<open>Strings\<close>

text \<open>
  Strings are byte lists in UTF-8. \<open>trim\<close> is
  \<^verbatim>\<open>String.prototype.trim\<close>: it strips, from both ends, every code point
  that ECMAScript counts as white space or as a line terminator: U+0009 to U+000D,
  U+0020, U+00A0, U+1680, U+2000 to U+200A, U+2028, U+2029, U+202F, U+205F, U+3000 and
  U+FEFF. \<open>white_space\<close> lists their encodings. A lead byte of UTF-8 is never a
  continuation byte, so an encoding found at the end of a well-formed string is that
  code point. \<open>strip_quotes\<close> is
  \<^verbatim>\<open>.replace(/^["']|["']$/g, '')\<close>: one quote character off the front and
  one off the end, where there is one.
\<close>

definition white_space :: "string list" where
  "white_space =
     [[CHR 0x09], [CHR 0x0A], [CHR 0x0B], [CHR 0x0C], [CHR 0x0D], [CHR 0x20],
      [CHR 0xC2, CHR 0xA0],
      [CHR 0xE1, CHR 0x9A, CHR 0x80],
      [CHR 0xE2, CHR 0x80, CHR 0x80], [CHR 0xE2, CHR 0x80, CHR 0x81],
      [CHR 0xE2, CHR 0x80, CHR 0x82], [CHR 0xE2, CHR 0x80, CHR 0x83],
      [CHR 0xE2, CHR 0x80, CHR 0x84], [CHR 0xE2, CHR 0x80, CHR 0x85],
      [CHR 0xE2, CHR 0x80, CHR 0x86], [CHR 0xE2, CHR 0x80, CHR 0x87],
      [CHR 0xE2, CHR 0x80, CHR 0x88], [CHR 0xE2, CHR 0x80, CHR 0x89],
      [CHR 0xE2, CHR 0x80, CHR 0x8A],
      [CHR 0xE2, CHR 0x80, CHR 0xA8], [CHR 0xE2, CHR 0x80, CHR 0xA9],
      [CHR 0xE2, CHR 0x80, CHR 0xAF],
      [CHR 0xE2, CHR 0x81, CHR 0x9F],
      [CHR 0xE3, CHR 0x80, CHR 0x80],
      [CHR 0xEF, CHR 0xBB, CHR 0xBF]]"

definition starts_with :: "string \<Rightarrow> string \<Rightarrow> bool" where
  "starts_with s p \<longleftrightarrow> p \<noteq> [] \<and> take (length p) s = p"

function strip_front :: "string list \<Rightarrow> string \<Rightarrow> string" where
  "strip_front codes s =
     (case find (starts_with s) codes of
        None \<Rightarrow> s
      | Some p \<Rightarrow> strip_front codes (drop (length p) s))"
  by pat_completeness auto
termination
proof (relation "measure (\<lambda>(codes, s). length s)")
  show "wf (measure (\<lambda>(codes, s). length s))" by simp
next
  fix codes :: "string list" and s p :: string
  assume "find (starts_with s) codes = Some p"
  then have "starts_with s p" by (auto simp: find_Some_iff)
  then have "p \<noteq> []" "take (length p) s = p" by (simp_all add: starts_with_def)
  then have "s \<noteq> []" by auto
  with \<open>p \<noteq> []\<close> show "((codes, drop (length p) s), (codes, s)) \<in> measure (\<lambda>(codes, s). length s)"
    by simp
qed

definition trim :: "string \<Rightarrow> string" where
  "trim s = rev (strip_front (map rev white_space) (rev (strip_front white_space s)))"

definition is_quote :: "char \<Rightarrow> bool" where
  "is_quote c \<longleftrightarrow> c = CHR 0x22 \<or> c = CHR 0x27"

definition strip_quotes :: "string \<Rightarrow> string" where
  "strip_quotes s =
     (let s1 = (case s of [] \<Rightarrow> [] | c # cs \<Rightarrow> if is_quote c then cs else s)
      in if s1 \<noteq> [] \<and> is_quote (last s1) then butlast s1 else s1)"

fun join :: "string \<Rightarrow> string list \<Rightarrow> string" where
  "join sep [] = []"
| "join sep [x] = x"
| "join sep (x # y # ys) = x @ sep @ join sep (y # ys)"

definition digit_char :: "nat \<Rightarrow> char" where
  "digit_char d = char_of (48 + d)"

function string_of_nat :: "nat \<Rightarrow> string" where
  "string_of_nat n =
     (if n < 10 then [digit_char n] else string_of_nat (n div 10) @ [digit_char (n mod 10)])"
  by pat_completeness auto
termination
  by (relation "measure id") auto

definition string_of_int :: "int \<Rightarrow> string" where
  "string_of_int i = (if i < 0 then CHR ''-'' # string_of_nat (nat (- i)) else string_of_nat (nat i))"

section \<open>The response analyzer and the initial questions\<close>

text \<open>
  \<open>analyzeUserResponse\<close>: the call of \<open>generateText\<close> stands before the
  \<^verbatim>\<open>try\<close>, so its rejection leaves the function; inside the \<^verbatim>\<open>try\<close> the
  trimmed text is parsed and the parsed value is returned as it is; the
  \<^verbatim>\<open>catch\<close> returns the default analysis. The arguments that only enter the
  prompt (answer, question, role, stack) are left out.
\<close>

definition default_analysis :: "int \<Rightarrow> jsval" where
  "default_analysis currentDifficulty' =
     JObj [(''mvpKeywords'', JArr []),
           (''confidence'', JNum 5),
           (''technicalAccuracy'', JNum 5),
           (''completeness'', JNum 5),
           (''overallScore'', JNum 5),
           (''suggestedNextDifficulty'', JNum currentDifficulty'),
           (''reasoning'', JStr ''Unable to analyze response properly'')]"

definition analyzeUserResponse ::
  "(string \<Rightarrow> jsval option) \<Rightarrow> error + string \<Rightarrow> int \<Rightarrow> world \<Rightarrow> (error + jsval) \<times> world" where
  "analyzeUserResponse parse reply currentDifficulty' w =
     (case generateText reply w of
        (Inl e, w') \<Rightarrow> (Inl e, w')
      | (Inr analysisResponse, w') \<Rightarrow>
          (case parse (trim analysisResponse) of
             Some analysis \<Rightarrow> (Inr analysis, w')
           | None \<Rightarrow> (Inr (default_analysis currentDifficulty'), w')))"

text \<open>
  \<open>generateInitialQuestions\<close>: the same shape; a parsed array is returned as it is,
  any other parsed value gives the empty array, and the \<^verbatim>\<open>catch\<close> returns three
  fixed questions built from the role and the first entry of the stack.
\<close>

definition fallback_questions :: "string \<Rightarrow> string list \<Rightarrow> jsval list" where
  "fallback_questions role' techStack' =
     [JStr (''Tell me about your experience with '' @ role' @ '' positions.''),
      JStr (''How would you approach a challenging problem in '' @
            (case techStack' of [] \<Rightarrow> ''your tech stack''
             | t # _ \<Rightarrow> if t = [] then ''your tech stack'' else t) @ ''?''),
      JStr ''Describe a time when you had to learn a new technology quickly.'']"

definition generateInitialQuestions ::
  "(string \<Rightarrow> jsval option) \<Rightarrow> error + string \<Rightarrow> string \<Rightarrow> string list \<Rightarrow> world
     \<Rightarrow> (error + jsval list) \<times> world" where
  "generateInitialQuestions parse reply role' techStack' w =
     (case generateText reply w of
        (Inl e, w') \<Rightarrow> (Inl e, w')
      | (Inr questionsResponse, w') \<Rightarrow>
          (case parse (trim questionsResponse) of
             Some questions \<Rightarrow>
               (case questions of JArr qs \<Rightarrow> (Inr qs, w') | _ \<Rightarrow> (Inr [], w'))
           | None \<Rightarrow> (Inr (fallback_questions role' techStack'), w')))"

text \<open>
  A parser for the examples below. It agrees with \<open>JSON.parse\<close> on the three texts
  the examples feed it: \<^verbatim>\<open>{}\<close> is the empty object, \<^verbatim>\<open>[]\<close> the empty array,
  and \<^verbatim>\<open>not json\<close> is a syntax error.
\<close>

definition sample_parse :: "string \<Rightarrow> jsval option" where
  "sample_parse s =
     (if s = ''{}'' then Some (JObj []) else if s = ''[]'' then Some (JArr []) else None)"

section \<open>The flow orchestrator\<close>

text \<open>
  \<open>initializeFlowState\<close> builds the fresh state and stores it under the session
  id; a rejected write leaves the function as the rejection. There is no other exit.
\<close>

definition initializeFlowState ::
  "bool \<Rightarrow> string \<Rightarrow> string \<Rightarrow> string list \<Rightarrow> int \<Rightarrow> int \<Rightarrow> world
     \<Rightarrow> (error + AdaptiveFlowState) \<times> world" where
  "initializeFlowState ok sid role' techStack' baseDifficulty' totalQuestions' w =
     (let flowState = fresh_flowState sid role' techStack' baseDifficulty' totalQuestions'
      in case db_set ok sid flowState w of
           (Inl e, w') \<Rightarrow> (Inl e, w')
         | (Inr _, w') \<Rightarrow> (Inr flowState, w'))"

text \<open>
  The analyzer returns whatever \<open>JSON.parse\<close> produced, typed as a
  \<open>ResponseAnalysis\<close>, and \<open>generateNextQuestion\<close> hands that value to
  \<open>updateFlowState\<close> unchecked. \<open>as_ResponseAnalysis\<close> reads a parsed value as
  the record the type promises: an object whose \<open>mvpKeywords\<close> is an array of
  strings, whose five scores are numbers and whose \<open>reasoning\<close> is a string.
\<close>

fun js_strings :: "jsval list \<Rightarrow> string list option" where
  "js_strings [] = Some []"
| "js_strings (JStr s # vs) = map_option ((#) s) (js_strings vs)"
| "js_strings (_ # vs) = None"

definition num_field :: "(string \<times> jsval) list \<Rightarrow> string \<Rightarrow> int option" where
  "num_field props k = (case map_of props k of Some (JNum n) \<Rightarrow> Some n | _ \<Rightarrow> None)"

definition str_field :: "(string \<times> jsval) list \<Rightarrow> string \<Rightarrow> string option" where
  "str_field props k = (case map_of props k of Some (JStr s) \<Rightarrow> Some s | _ \<Rightarrow> None)"

definition strings_field :: "(string \<times> jsval) list \<Rightarrow> string \<Rightarrow> string list option" where
  "strings_field props k = (case map_of props k of Some (JArr vs) \<Rightarrow> js_strings vs | _ \<Rightarrow> None)"

definition as_ResponseAnalysis :: "jsval \<Rightarrow> ResponseAnalysis option" where
  "as_ResponseAnalysis v =
     (case v of
        JObj props \<Rightarrow>
          do {
            ks \<leftarrow> strings_field props ''mvpKeywords'';
            c \<leftarrow> num_field props ''confidence'';
            t \<leftarrow> num_field props ''technicalAccuracy'';
            m \<leftarrow> num_field props ''completeness'';
            sc \<leftarrow> num_field props ''overallScore'';
            d \<leftarrow> num_field props ''suggestedNextDifficulty'';
            r \<leftarrow> str_field props ''reasoning'';
            Some \<lparr> analysis_mvpKeywords = ks, confidence = c, technicalAccuracy = t,
                   completeness = m, overallScore = sc, suggestedNextDifficulty = d,
                   reasoning = r \<rparr>
          }
      | _ \<Rightarrow> None)"

text \<open>
  What \<open>updateFlowState\<close> does with a parsed value of another shape. Its first
  statement is \<^verbatim>\<open>analysis.mvpKeywords.filter(...)\<close>: unless the value is an
  object whose \<open>mvpKeywords\<close> is an array, that statement throws a
  \<open>TypeError\<close>, which leaves \<open>generateNextQuestion\<close> before anything is
  written. With an array there, nothing throws: JavaScript reads the other fields
  where they are and coerces them (a missing score compares as \<open>NaN\<close>), and the
  function goes on to both writes. The integer record of this model cannot hold every
  such value. \<open>read_analysis\<close> reads each field where the value has it with
  the type the interface gives it: the keywords when they are an array of strings, a
  score when it is a number, the reasoning when it is a string. What the update
  computes with in place of any other field is taken from \<open>coerced env\<close>, of
  which no theorem assumes anything. For a well-typed analysis \<open>read_analysis\<close>
  is the analysis itself.
\<close>

definition has_mvpKeywords_array :: "jsval \<Rightarrow> bool" where
  "has_mvpKeywords_array v \<longleftrightarrow>
     (case v of
        JObj props \<Rightarrow> (case map_of props ''mvpKeywords'' of Some (JArr _) \<Rightarrow> True | _ \<Rightarrow> False)
      | _ \<Rightarrow> False)"

definition read_analysis :: "collaborators \<Rightarrow> jsval \<Rightarrow> ResponseAnalysis" where
  "read_analysis env v =
     (case v of
        JObj props \<Rightarrow>
          \<lparr> analysis_mvpKeywords =
              (case strings_field props ''mvpKeywords'' of
                 Some ks \<Rightarrow> ks | None \<Rightarrow> analysis_mvpKeywords (coerced env v)),
            confidence =
              (case num_field props ''confidence'' of
                 Some n \<Rightarrow> n | None \<Rightarrow> confidence (coerced env v)),
            technicalAccuracy =
              (case num_field props ''technicalAccuracy'' of
                 Some n \<Rightarrow> n | None \<Rightarrow> technicalAccuracy (coerced env v)),
            completeness =
              (case num_field props ''completeness'' of
                 Some n \<Rightarrow> n | None \<Rightarrow> completeness (coerced env v)),
            overallScore =
              (case num_field props ''overallScore'' of
                 Some n \<Rightarrow> n | None \<Rightarrow> overallScore (coerced env v)),
            suggestedNextDifficulty =
              (case num_field props ''suggestedNextDifficulty'' of
                 Some n \<Rightarrow> n | None \<Rightarrow> suggestedNextDifficulty (coerced env v)),
            reasoning =
              (case str_field props ''reasoning'' of
                 Some r \<Rightarrow> r | None \<Rightarrow> reasoning (coerced env v)) \<rparr>
      | _ \<Rightarrow> coerced env v)"

record QuestionGenerationRequest =
  req_sessionId :: string
  req_userResponse :: string
  req_currentQuestion :: string
  req_flowState :: AdaptiveFlowState

text \<open>
  \<open>generateNextQuestion\<close> is a straight line of awaited calls, each of which may
  reject: analyze (call 0 of \<open>generateText\<close>), update (which throws when the
  analysis has no keyword array), first write, the follow-up question (call 1), the
  push onto \<open>questionHistory\<close>, second write. Both writes go to the document named
  by \<^verbatim>\<open>flowState.sessionId\<close>.
\<close>

definition generateNextQuestion ::
  "tie_policy \<Rightarrow> collaborators \<Rightarrow> QuestionGenerationRequest \<Rightarrow> world \<Rightarrow> (error + string) \<times> world" where
  "generateNextQuestion tie_up env request w =
     (let flowState = req_flowState request in
      case analyzeUserResponse (JSON_parse env) (generateText_reply env 0)
             (currentDifficulty flowState) w of
        (Inl e, w1) \<Rightarrow> (Inl e, w1)
      | (Inr parsed, w1) \<Rightarrow>
          (if \<not> has_mvpKeywords_array parsed then (Inl TypeError, w1)
           else
               (let analysis = read_analysis env parsed;
                    updatedState = updateFlowState tie_up flowState analysis in
                case db_set (set_ok env 0) (sessionId flowState) updatedState w1 of
                  (Inl e, w2) \<Rightarrow> (Inl e, w2)
                | (Inr _, w2) \<Rightarrow>
                    (case generateText (generateText_reply env 1) w2 of
                       (Inl e, w3) \<Rightarrow> (Inl e, w3)
                     | (Inr nextQuestion, w3) \<Rightarrow>
                         (let q = strip_quotes (trim nextQuestion);
                              finalState = updatedState
                                \<lparr>questionHistory := questionHistory updatedState @
                                   [\<lparr> question = q,
                                      timestamp = toISOString_now env,
                                      difficulty = currentDifficulty updatedState,
                                      category = ''adaptive'' \<rparr>]\<rparr>
                          in case db_set (set_ok env 1) (sessionId flowState) finalState w3 of
                               (Inl e, w4) \<Rightarrow> (Inl e, w4)
                             | (Inr _, w4) \<Rightarrow> (Inr q, w4))))))"

text \<open>
  \<open>generateInterviewSummary\<close>: five lines of text. The arrow between the
  difficulties is U+2192, three bytes in UTF-8.
\<close>

definition generateInterviewSummary :: "AdaptiveFlowState \<Rightarrow> string" where
  "generateInterviewSummary flowState =
     (let difficultyProgression =
            join ([CHR 0x20, CHR 0xE2, CHR 0x86, CHR 0x92, CHR 0x20])
              (map (\<lambda>q. string_of_int (difficulty q)) (questionHistory flowState))
      in ''Interview Summary:'' @ [CHR 0x0A] @
         ''- Questions Asked: '' @ string_of_int (questionsAsked flowState) @ ''/'' @
            string_of_int (totalQuestions flowState) @ [CHR 0x0A] @
         ''- Difficulty Progression: '' @ difficultyProgression @ [CHR 0x0A] @
         ''- Final Difficulty: '' @ string_of_int (currentDifficulty flowState) @
            ''/10 (Started at '' @ string_of_int (baseDifficulty flowState) @ ''/10)'' @ [CHR 0x0A] @
         ''- Key Topics Covered: '' @ join '', '' (mvpKeywords flowState) @ [CHR 0x0A] @
         ''- Consecutive Correct Streak: '' @ string_of_int (consecutiveCorrect flowState))"

section \<open>The endpoints\<close>

text \<open>
  The two route handlers, on a request body that has been parsed. A field of the body
  is \<open>None\<close> when it is absent; \<^verbatim>\<open>!x\<close> holds of an absent field and of the
  empty string. \<open>techStack\<close> may be an array or a single string, which the handler
  wraps into an array. Every rejection inside the handler ends in its \<^verbatim>\<open>catch\<close>,
  which answers 500.
\<close>

datatype response =
    Status400 string
  | Status404 string
  | Status500 string
  | InterviewCompleted string
  | NextQuestion string "AdaptiveFlowState option" int
  | FlowInitialized AdaptiveFlowState "jsval list"

definition falsy_string :: "string option \<Rightarrow> bool" where
  "falsy_string x \<longleftrightarrow> (case x of None \<Rightarrow> True | Some s \<Rightarrow> s = [])"

record next_question_body =
  nq_sessionId :: "string option"
  nq_userResponse :: "string option"
  nq_currentQuestion :: "string option"

definition POST_next_question ::
  "tie_policy \<Rightarrow> collaborators \<Rightarrow> next_question_body \<Rightarrow> world \<Rightarrow> response \<times> world" where
  "POST_next_question tie_up env body w =
     (if falsy_string (nq_sessionId body) \<or> falsy_string (nq_userResponse body) \<or>
         falsy_string (nq_currentQuestion body)
      then (Status400 ''Missing required parameters'', w)
      else
        (let sid = the (nq_sessionId body) in
         case getFlowState (get_ok env 0) sid w of
           (None, w1) \<Rightarrow> (Status404 ''Flow state not found. Please initialize first.'', w1)
         | (Some flowState, w1) \<Rightarrow>
             if \<not> shouldContinueInterview flowState
             then (InterviewCompleted (generateInterviewSummary flowState), w1)
             else
               (case generateNextQuestion tie_up env
                       \<lparr> req_sessionId = sid,
                         req_userResponse = the (nq_userResponse body),
                         req_currentQuestion = the (nq_currentQuestion body),
                         req_flowState = flowState \<rparr> w1 of
                  (Inl e, w2) \<Rightarrow> (Status500 ''Failed to generate next question'', w2)
                | (Inr nextQuestion, w2) \<Rightarrow>
                    (case getFlowState (get_ok env 1) sid w2 of
                       (updatedFlowState, w3) \<Rightarrow>
                         (NextQuestion nextQuestion updatedFlowState
                            (case updatedFlowState of
                               None \<Rightarrow> 0
                             | Some u \<Rightarrow> totalQuestions u - questionsAsked u), w3)))))"

datatype techStack_field = StackArray "string list" | StackSingle string

record initialize_flow_body =
  if_sessionId :: "string option"
  if_role :: "string option"
  if_techStack :: "techStack_field option"
  if_baseDifficulty :: "int option"
  if_totalQuestions :: "int option"

definition falsy_techStack :: "techStack_field option \<Rightarrow> bool" where
  "falsy_techStack x \<longleftrightarrow>
     (case x of None \<Rightarrow> True | Some (StackSingle s) \<Rightarrow> s = [] | Some (StackArray _) \<Rightarrow> False)"

definition techStack_array :: "techStack_field \<Rightarrow> string list" where
  "techStack_array x = (case x of StackArray xs \<Rightarrow> xs | StackSingle s \<Rightarrow> [s])"

definition POST_initialize_flow ::
  "collaborators \<Rightarrow> initialize_flow_body \<Rightarrow> world \<Rightarrow> response \<times> world" where
  "POST_initialize_flow env body w =
     (if falsy_string (if_sessionId body) \<or> falsy_string (if_role body) \<or>
         falsy_techStack (if_techStack body) \<or> if_baseDifficulty body = None
      then (Status400 ''Missing required parameters'', w)
      else
        (let sid = the (if_sessionId body);
             role' = the (if_role body);
             stack = techStack_array (the (if_techStack body));
             base = the (if_baseDifficulty body);
             total_n = (case if_totalQuestions body of
                          None \<Rightarrow> 10 | Some n \<Rightarrow> if n = 0 then 10 else n)
         in case initializeFlowState (set_ok env 0) sid role' stack base total_n w of
              (Inl e, w1) \<Rightarrow> (Status500 ''Failed to initialize adaptive flow'', w1)
            | (Inr flowState, w1) \<Rightarrow>
                (case generateInitialQuestions (JSON_parse env) (generateText_reply env 0)
                        role' stack w1 of
                   (Inl e, w2) \<Rightarrow> (Status500 ''Failed to initialize adaptive flow'', w2)
                 | (Inr initialQuestions, w2) \<Rightarrow>
                     (FlowInitialized flowState initialQuestions, w2))))"

section \<open>Interruption handling\<close>

text \<open>
  \<open>InterruptionHandler\<close> keeps a configuration, the metrics and the list of
  recorded delays. Time stamps are the integers of \<^verbatim>\<open>Date.now()\<close>. The two
  fractional settings and the running average are rationals; the average is the exact
  quotient, where JavaScript keeps the nearest double. \<open>fastestInterruption\<close>
  starts at \<open>Infinity\<close>, here \<open>None\<close>.
\<close>

record InterruptionConfig =
  vadSensitivity :: rat
  silenceThreshold :: int
  speechStartThreshold :: rat
  maxInterruptionDelay :: int
  speechCancellationTimeout :: int
  enableLogging :: bool
  enableMetrics :: bool

definition DEFAULT_INTERRUPTION_CONFIG :: InterruptionConfig where
  "DEFAULT_INTERRUPTION_CONFIG =
     \<lparr> vadSensitivity = 8 / 10,
       silenceThreshold = 150,
       speechStartThreshold = 1 / 10,
       maxInterruptionDelay = 200,
       speechCancellationTimeout = 100,
       enableLogging = True,
       enableMetrics = True \<rparr>"

record InterruptionMetrics =
  totalInterruptions :: int
  averageInterruptionDelay :: rat
  fastestInterruption :: "int option"
  slowestInterruption :: int
  successfulCancellations :: int
  failedCancellations :: int
  lastInterruptionTime :: "int option"

record InterruptionHandler =
  config :: InterruptionConfig
  metrics :: InterruptionMetrics
  interruptionTimes :: "int list"

definition createEmptyMetrics :: InterruptionMetrics where
  "createEmptyMetrics =
     \<lparr> totalInterruptions = 0,
       averageInterruptionDelay = 0,
       fastestInterruption = None,
       slowestInterruption = 0,
       successfulCancellations = 0,
       failedCancellations = 0,
       lastInterruptionTime = None \<rparr>"

definition new_InterruptionHandler :: "InterruptionConfig \<Rightarrow> InterruptionHandler" where
  "new_InterruptionHandler cfg =
     \<lparr> config = cfg, metrics = createEmptyMetrics, interruptionTimes = [] \<rparr>"

definition below_fastest :: "int \<Rightarrow> int option \<Rightarrow> bool" where
  "below_fastest delay fastest \<longleftrightarrow> (case fastest of None \<Rightarrow> True | Some f \<Rightarrow> delay < f)"

text \<open>
  \<open>recordInterruption\<close>: push the delay, count it, remember when it happened,
  update fastest and slowest, recompute the average over all recorded delays. The
  logging at the end changes nothing.
\<close>

definition recordInterruption :: "int \<Rightarrow> int \<Rightarrow> InterruptionHandler \<Rightarrow> InterruptionHandler" where
  "recordInterruption aiSpeechStart userSpeechDetectedTime h =
     (let delay = userSpeechDetectedTime - aiSpeechStart;
          times = interruptionTimes h @ [delay];
          m1 = (metrics h)\<lparr>totalInterruptions := totalInterruptions (metrics h) + 1,
                           lastInterruptionTime := Some userSpeechDetectedTime\<rparr>;
          m2 = (if below_fastest delay (fastestInterruption m1)
                then m1\<lparr>fastestInterruption := Some delay\<rparr> else m1);
          m3 = (if delay > slowestInterruption m2
                then m2\<lparr>slowestInterruption := delay\<rparr> else m2);
          m4 = m3\<lparr>averageInterruptionDelay :=
                     of_int (foldl (+) 0 times) / of_nat (length times)\<rparr>
      in h\<lparr>interruptionTimes := times, metrics := m4\<rparr>)"

text \<open>
  A message of the voice transport. The handler reads \<open>type\<close>, and \<open>role\<close>,
  \<open>transcriptType\<close> and \<open>status\<close> where the message has them (\<open>None\<close>: the
  field is absent); \<open>transcript\<close> is carried along and never read.
\<close>

record message =
  msg_type :: string
  msg_role :: "string option"
  transcriptType :: "string option"
  status :: "string option"
  transcript :: "string option"

datatype callback = OnInterruption | OnSpeechStart | OnSpeechEnd

text \<open>
  What \<open>createInterruptionAwareMessageHandler\<close> closes over: the variable
  \<open>aiSpeechStartTime\<close> (\<^verbatim>\<open>null\<close> is \<open>None\<close>), the handler object, and, in
  place of the three callbacks, the list of callbacks invoked so far.
\<close>

record handler_closure =
  aiSpeechStartTime :: "int option"
  handler :: InterruptionHandler
  invoked :: "callback list"

definition createInterruptionAwareMessageHandler :: "InterruptionHandler \<Rightarrow> handler_closure" where
  "createInterruptionAwareMessageHandler h =
     \<lparr> aiSpeechStartTime = None, handler = h, invoked = [] \<rparr>"

text \<open>
  The test \<^verbatim>\<open>if (aiSpeechStartTime)\<close> is a truthiness test: it fails for
  \<^verbatim>\<open>null\<close> and for the number 0.
\<close>

definition truthy_time :: "int option \<Rightarrow> bool" where
  "truthy_time t \<longleftrightarrow> (case t of None \<Rightarrow> False | Some n \<Rightarrow> n \<noteq> 0)"

definition record_at :: "int \<Rightarrow> handler_closure \<Rightarrow> handler_closure" where
  "record_at now c =
     (case aiSpeechStartTime c of
        None \<Rightarrow> c
      | Some t \<Rightarrow> c\<lparr>handler := recordInterruption t now (handler c)\<rparr>)"

definition invoke :: "callback \<Rightarrow> handler_closure \<Rightarrow> handler_closure" where
  "invoke cb c = c\<lparr>invoked := invoked c @ [cb]\<rparr>"

text \<open>
  The returned message handler: six \<^verbatim>\<open>if\<close> statements, one after the other,
  on one reading \<open>now\<close> of the clock.
\<close>

definition on_message :: "int \<Rightarrow> message \<Rightarrow> handler_closure \<Rightarrow> handler_closure" where
  "on_message now msg c0 =
     (let c1 = (if msg_type msg = ''speech-start'' \<and> msg_role msg = Some ''assistant''
                then invoke OnSpeechStart (c0\<lparr>aiSpeechStartTime := Some now\<rparr>) else c0);
          c2 = (if msg_type msg = ''speech-end'' \<and> msg_role msg = Some ''assistant''
                then invoke OnSpeechEnd (c1\<lparr>aiSpeechStartTime := None\<rparr>) else c1);
          c3 = (if msg_type msg = ''transcript'' \<and> msg_role msg = Some ''user''
                then (if transcriptType msg = Some ''partial'' \<and> truthy_time (aiSpeechStartTime c2)
                      then invoke OnInterruption (record_at now c2) else c2)
                else c2);
          c4 = (if msg_type msg = ''user-interrupted''
                then invoke OnInterruption
                       (if truthy_time (aiSpeechStartTime c3) then record_at now c3 else c3)
                else c3);
          c5 = (if msg_type msg = ''voice-input'' \<and> truthy_time (aiSpeechStartTime c4)
                then invoke OnInterruption (record_at now c4) else c4);
          c6 = (if msg_type msg = ''speech-update'' \<and> msg_role msg = Some ''user'' \<and>
                   status msg = Some ''started''
                then (if truthy_time (aiSpeechStartTime c5)
                      then invoke OnInterruption (record_at now c5) else c5)
                else c5)
      in c6)"

text \<open>The four kinds of event that count as the user interrupting.\<close>

definition interruption_class :: "message \<Rightarrow> bool" where
  "interruption_class msg \<longleftrightarrow>
     (msg_type msg = ''transcript'' \<and> msg_role msg = Some ''user'' \<and>
        transcriptType msg = Some ''partial'') \<or>
     msg_type msg = ''user-interrupted'' \<or>
     msg_type msg = ''voice-input'' \<or>
     (msg_type msg = ''speech-update'' \<and> msg_role msg = Some ''user'' \<and>
        status msg = Some ''started'')"

definition speech_start_assistant :: message where
  "speech_start_assistant =
     \<lparr> msg_type = ''speech-start'', msg_role = Some ''assistant'', transcriptType = None,
       status = None, transcript = None \<rparr>"

definition user_partial :: "string \<Rightarrow> message" where
  "user_partial txt =
     \<lparr> msg_type = ''transcript'', msg_role = Some ''user'', transcriptType = Some ''partial'',
       status = None, transcript = Some txt \<rparr>"

section \<open>Views of \<open>updateFlowState\<close> used in the proofs\<close>

text \<open>
  Two abbreviations for intermediate values of \<open>updateFlowState\<close>; the lemmas
  \<open>updateFlowState_consecutiveCorrect\<close>, \<open>updateFlowState_consecutiveIncorrect\<close>
  and \<open>updateFlowState_currentDifficulty\<close> below prove that they are what the
  function computes. \<open>streaks_after_classify\<close> is the pair of counters after the
  first \<^verbatim>\<open>if\<close> chain, \<open>unclamped\<close> the value of \<open>newDifficulty\<close> before
  the clamp.
\<close>

definition streaks_after_classify :: "AdaptiveFlowState \<Rightarrow> ResponseAnalysis \<Rightarrow> int \<times> int" where
  "streaks_after_classify s a =
     (if overallScore a \<ge> 7 then (consecutiveCorrect s + 1, 0)
      else if overallScore a \<le> 4 then (0, consecutiveIncorrect s + 1)
      else (consecutiveCorrect s, consecutiveIncorrect s))"

definition unclamped :: "tie_policy \<Rightarrow> AdaptiveFlowState \<Rightarrow> ResponseAnalysis \<Rightarrow> int" where
  "unclamped tie_up s a =
     (if fst (streaks_after_classify s a) \<ge> 3 then min 10 (currentDifficulty s + 1)
      else if snd (streaks_after_classify s a) \<ge> 2 then max 1 (currentDifficulty s - 1)
      else Math_round_blend tie_up (currentDifficulty s) (suggestedNextDifficulty a))"




section \<open>Sample values\<close>

text \<open>
  Concrete worlds, collaborators and requests, on which the examples below run the
  functions: a session \<open>s1\<close> at base difficulty 5; a generation service that
  answers the analysis prompt with text that is not JSON and the question prompt with
  a question; writes that succeed or fail as the two flags say; the world a failed
  request leaves behind, and the request the endpoint builds when the same body is
  posted again.
\<close>

definition empty_world :: world where
  "empty_world = \<lparr> store = Map.empty, calls = [] \<rparr>"

definition default_ResponseAnalysis :: "int \<Rightarrow> ResponseAnalysis" where
  "default_ResponseAnalysis currentDifficulty' =
     \<lparr> analysis_mvpKeywords = [], confidence = 5, technicalAccuracy = 5, completeness = 5,
       overallScore = 5, suggestedNextDifficulty = currentDifficulty',
       reasoning = ''Unable to analyze response properly'' \<rparr>"

definition sample_state :: AdaptiveFlowState where
  "sample_state = fresh_flowState ''s1'' ''Frontend Developer'' [''React''] 5 10"


definition sample_env :: "bool \<Rightarrow> bool \<Rightarrow> collaborators" where
  "sample_env first_ok second_ok =
     \<lparr> JSON_parse = sample_parse,
       generateText_reply = (\<lambda>k. if k = 0 then Inr ''not json'' else Inr ''What is a closure?''),
       set_ok = (\<lambda>k. if k = 0 then first_ok else second_ok),
       get_ok = (\<lambda>k. True),
       toISOString_now = ''2025-01-01T00:00:00.000Z'',
       coerced = (\<lambda>v. scored_analysis 5 5) \<rparr>"




definition sample_init_body :: "int \<Rightarrow> initialize_flow_body" where
  "sample_init_body base =
     \<lparr> if_sessionId = Some ''s1'', if_role = Some ''Frontend Developer'',
       if_techStack = Some (StackArray [''React'']), if_baseDifficulty = Some base,
       if_totalQuestions = None \<rparr>"

definition finished_state :: AdaptiveFlowState where
  "finished_state = sample_state\<lparr>questionsAsked := 10\<rparr>"

definition finished_world :: world where
  "finished_world = \<lparr> store = [''s1'' \<mapsto> finished_state], calls = [] \<rparr>"

definition sample_next_body :: next_question_body where
  "sample_next_body =
     \<lparr> nq_sessionId = Some ''s1'', nq_userResponse = Some ''I use hooks.'',
       nq_currentQuestion = Some ''How do you manage state?'' \<rparr>"



definition sample_handler :: handler_closure where
  "sample_handler =
     createInterruptionAwareMessageHandler (new_InterruptionHandler DEFAULT_INTERRUPTION_CONFIG)"

definition user_interrupted :: message where
  "user_interrupted =
     \<lparr> msg_type = ''user-interrupted'', msg_role = None, transcriptType = None,
       status = None, transcript = None \<rparr>"

section \<open>Properties of the difficulty controller\<close>

subsection \<open>What one update does to each field\<close>

lemma updateFlowState_baseDifficulty:
  "baseDifficulty (updateFlowState tie_up s a) = baseDifficulty s"
  by (simp add: updateFlowState_def Let_def)

lemma updateFlowState_consecutiveCorrect:
  "consecutiveCorrect (updateFlowState tie_up s a) =
     (if fst (streaks_after_classify s a) \<ge> 3 then 0 else fst (streaks_after_classify s a))"
  by (simp add: updateFlowState_def streaks_after_classify_def Let_def)

lemma updateFlowState_consecutiveIncorrect:
  "consecutiveIncorrect (updateFlowState tie_up s a) =
     (if fst (streaks_after_classify s a) \<ge> 3 then snd (streaks_after_classify s a)
      else if snd (streaks_after_classify s a) \<ge> 2 then 0
      else snd (streaks_after_classify s a))"
  by (simp add: updateFlowState_def streaks_after_classify_def Let_def)

lemma updateFlowState_currentDifficulty:
  "currentDifficulty (updateFlowState tie_up s a) =
     max (baseDifficulty s - 3) (min (baseDifficulty s + 3) (unclamped tie_up s a))"
  by (simp add: updateFlowState_def unclamped_def streaks_after_classify_def Let_def)

lemma updateFlowState_mvpKeywords:
  "mvpKeywords (updateFlowState tie_up s a) =
     mvpKeywords s @ filter (\<lambda>keyword. keyword \<notin> set (mvpKeywords s)) (analysis_mvpKeywords a)"
  by (simp add: updateFlowState_def Let_def)



lemmas updateFlowState_fields =
  updateFlowState_baseDifficulty updateFlowState_currentDifficulty
  updateFlowState_consecutiveCorrect updateFlowState_consecutiveIncorrect

subsection \<open>The difficulty stays near the base and on the scale\<close>

lemma Math_round_blend_bounds:
  assumes "1 \<le> c" "c \<le> 10" "1 \<le> s" "s \<le> 10"
  shows "1 \<le> Math_round_blend tie_up c s \<and> Math_round_blend tie_up c s \<le> 10"
proof -
  define n where "n = 7 * c + 3 * s"
  have n: "10 \<le> n" "n \<le> 100" using assms by (simp_all add: n_def)
  have a: "1 \<le> n div 10" using n by linarith
  have b: "(n + 5) div 10 \<le> 10" using n by linarith
  have c: "n div 10 \<le> (n + 5) div 10" by linarith
  have d: "n mod 10 = 5 \<Longrightarrow> n div 10 + 1 \<le> 10" using n by presburger
  show ?thesis
    unfolding Math_round_blend_def Let_def n_def [symmetric]
    using a b c d by auto
qed

lemma unclamped_in_scale:
  assumes "in_scale (currentDifficulty s)" "in_scale (suggestedNextDifficulty a)"
  shows "1 \<le> unclamped tie_up s a \<and> unclamped tie_up s a \<le> 10"
proof -
  have b: "1 \<le> Math_round_blend tie_up (currentDifficulty s) (suggestedNextDifficulty a) \<and>
           Math_round_blend tie_up (currentDifficulty s) (suggestedNextDifficulty a) \<le> 10"
    using assms by (intro Math_round_blend_bounds) (simp_all add: in_scale_def)
  show ?thesis
    using b assms by (auto simp: unclamped_def Let_def in_scale_def)
qed

text \<open>
  Claim C1. For a state whose base and current difficulty are on the 1-10 scale and at
  most 3 apart, and an analysis whose scores are on the scale, the state returned by
  \<open>updateFlowState\<close> has its current difficulty within 3 of its base difficulty and
  on the scale. The function clamps around the base only; the last conjunct says that
  a further clamp to the scale would change nothing.
\<close>

theorem updateFlowState_difficulty_bounds:
  assumes "valid_difficulties s" and "valid_analysis a"
  shows "baseDifficulty (updateFlowState tie_up s a) - 3 \<le> currentDifficulty (updateFlowState tie_up s a) \<and>
         currentDifficulty (updateFlowState tie_up s a) \<le> baseDifficulty (updateFlowState tie_up s a) + 3 \<and>
         1 \<le> currentDifficulty (updateFlowState tie_up s a) \<and>
         currentDifficulty (updateFlowState tie_up s a) \<le> 10 \<and>
         max 1 (min 10 (currentDifficulty (updateFlowState tie_up s a))) =
           currentDifficulty (updateFlowState tie_up s a)"
proof -
  have u: "1 \<le> unclamped tie_up s a \<and> unclamped tie_up s a \<le> 10"
    using assms by (intro unclamped_in_scale) (simp_all add: valid_difficulties_def valid_analysis_def)
  have b: "1 \<le> baseDifficulty s" "baseDifficulty s \<le> 10"
    using assms(1) by (simp_all add: valid_difficulties_def in_scale_def)
  show ?thesis
    unfolding updateFlowState_baseDifficulty updateFlowState_currentDifficulty
    using u b by (simp add: max_def min_def)
qed

theorem updateFlowState_difficulty_bounds_witness:
  "valid_difficulties (fresh_flowState ''s1'' ''Frontend Developer'' [''React''] 9 10) \<and>
   valid_analysis (scored_analysis 9 10) \<and>
   currentDifficulty (updateFlowState half_up
      (fresh_flowState ''s1'' ''Frontend Developer'' [''React''] 9 10) (scored_analysis 9 10)) = 9"
proof -
  have v: "valid_difficulties (fresh_flowState ''s1'' ''Frontend Developer'' [''React''] 9 10)"
    by (simp add: valid_difficulties_def fresh_flowState_def in_scale_def)
  have a: "valid_analysis (scored_analysis 9 10)"
    by (simp add: valid_analysis_def scored_analysis_def in_scale_def)
  have e: "currentDifficulty (updateFlowState half_up
      (fresh_flowState ''s1'' ''Frontend Developer'' [''React''] 9 10) (scored_analysis 9 10)) = 9"
    by (simp add: updateFlowState_fields unclamped_def streaks_after_classify_def
        fresh_flowState_def scored_analysis_def Math_round_blend_def half_up_def)
  show ?thesis
    using v a e updateFlowState_difficulty_bounds [OF v a, of half_up] by simp
qed

subsection \<open>The two streak counters\<close>

lemma streaks_exclusive_updateFlowState:
  assumes "streaks_exclusive s"
  shows "streaks_exclusive (updateFlowState tie_up s a)"
proof -
  obtain cc ci where c: "streaks_after_classify s a = (cc, ci)"
    by (cases "streaks_after_classify s a")
  have "(cc = 0 \<or> ci = 0) \<and> 0 \<le> cc \<and> 0 \<le> ci"
    using assms c by (auto simp: streaks_exclusive_def streaks_after_classify_def split: if_splits)
  then show ?thesis
    unfolding streaks_exclusive_def updateFlowState_consecutiveCorrect
      updateFlowState_consecutiveIncorrect c
    by auto
qed

lemma streaks_exclusive_foldl:
  "streaks_exclusive s \<Longrightarrow> streaks_exclusive (foldl (updateFlowState tie_up) s analyses)"
  by (induction analyses arbitrary: s) (simp_all add: streaks_exclusive_updateFlowState)

text \<open>
  Claim C2. Start from a state whose two streak counters are zero, as the state
  \<open>initializeFlowState\<close> builds is, and apply \<open>updateFlowState\<close> once per
  analysis of any list of analyses: in the state reached, at most one of
  \<open>consecutiveCorrect\<close> and \<open>consecutiveIncorrect\<close> is nonzero and neither is
  negative. The list is arbitrary, so this is the state after every call of the run.
\<close>

theorem streaks_exclusive_after_every_advance:
  assumes "consecutiveCorrect s = 0" and "consecutiveIncorrect s = 0"
  shows "(consecutiveCorrect (advance_all tie_up s analyses) = 0 \<or>
          consecutiveIncorrect (advance_all tie_up s analyses) = 0) \<and>
         0 \<le> consecutiveCorrect (advance_all tie_up s analyses) \<and>
         0 \<le> consecutiveIncorrect (advance_all tie_up s analyses)"
proof -
  have "streaks_exclusive s"
    using assms by (simp add: streaks_exclusive_def)
  then have "streaks_exclusive (foldl (updateFlowState tie_up) s analyses)"
    by (rule streaks_exclusive_foldl)
  then show ?thesis
    by (simp add: advance_all_def streaks_exclusive_def)
qed

theorem streaks_exclusive_after_every_advance_witness:
  "consecutiveCorrect (fresh_flowState ''s1'' ''Frontend Developer'' [''React''] 5 10) = 0 \<and>
   consecutiveIncorrect (fresh_flowState ''s1'' ''Frontend Developer'' [''React''] 5 10) = 0 \<and>
   consecutiveCorrect (advance_all half_up (fresh_flowState ''s1'' ''Frontend Developer'' [''React''] 5 10)
      [scored_analysis 8 5, scored_analysis 3 5]) = 0 \<and>
   consecutiveIncorrect (advance_all half_up (fresh_flowState ''s1'' ''Frontend Developer'' [''React''] 5 10)
      [scored_analysis 8 5, scored_analysis 3 5]) = 1"
proof -
  have z: "consecutiveCorrect (fresh_flowState ''s1'' ''Frontend Developer'' [''React''] 5 10) = 0"
    "consecutiveIncorrect (fresh_flowState ''s1'' ''Frontend Developer'' [''React''] 5 10) = 0"
    by (simp_all add: fresh_flowState_def)
  have i: "consecutiveIncorrect (advance_all half_up
      (fresh_flowState ''s1'' ''Frontend Developer'' [''React''] 5 10)
      [scored_analysis 8 5, scored_analysis 3 5]) = 1"
    by (simp add: advance_all_def updateFlowState_fields streaks_after_classify_def
        fresh_flowState_def scored_analysis_def)
  show ?thesis
    using z i streaks_exclusive_after_every_advance [OF z, of half_up "[scored_analysis 8 5, scored_analysis 3 5]"]
    by simp
qed

subsection \<open>Three passes in a row\<close>

lemma Math_round_blend_keeps_5:
  assumes "4 \<le> s" "s \<le> 6"
  shows "Math_round_blend tie_up 5 s = 5"
proof -
  from assms have "s = 4 \<or> s = 5 \<or> s = 6" by arith
  then show ?thesis by (auto simp: Math_round_blend_def)
qed

lemma pass_from_5:
  assumes "7 \<le> overallScore a" "currentDifficulty s = 5" "baseDifficulty s = 5"
    "consecutiveCorrect s = k" "k < 2" "consecutiveIncorrect s = 0"
    "4 \<le> suggestedNextDifficulty a" "suggestedNextDifficulty a \<le> 6"
  shows "currentDifficulty (updateFlowState tie_up s a) = 5 \<and>
         baseDifficulty (updateFlowState tie_up s a) = 5 \<and>
         consecutiveCorrect (updateFlowState tie_up s a) = k + 1 \<and>
         consecutiveIncorrect (updateFlowState tie_up s a) = 0"
  using assms
  by (simp add: updateFlowState_fields unclamped_def streaks_after_classify_def
      Math_round_blend_keeps_5)

lemma pass_counts:
  assumes "7 \<le> overallScore a" "consecutiveCorrect s = k" "k < 2"
  shows "consecutiveCorrect (updateFlowState tie_up s a) = k + 1"
  using assms by (simp add: updateFlowState_fields streaks_after_classify_def)

lemma third_pass:
  assumes "7 \<le> overallScore a" "consecutiveCorrect s = 2"
  shows "consecutiveCorrect (updateFlowState tie_up s a) = 0 \<and>
         currentDifficulty (updateFlowState tie_up s a) =
           max (baseDifficulty s - 3) (min (baseDifficulty s + 3) (min 10 (currentDifficulty s + 1)))"
  using assms by (simp add: updateFlowState_fields unclamped_def streaks_after_classify_def)

text \<open>
  Claim C6, as stated, fails: on the first two of three passes the streak has not yet
  reached 3, so the blend with the suggested difficulty moves the difficulty. With a
  score of 8 and a suggestion of 8 in every round the difficulty goes 5, 6, 7 and the
  third pass raises it to 8. (No exact tie occurs on this run.)
\<close>

theorem three_passes_counterexample:
  "7 \<le> overallScore (scored_analysis 8 8) \<and>
   currentDifficulty (advance_all half_up (fresh_flowState ''s1'' ''Frontend Developer'' [''React''] 5 10)
      [scored_analysis 8 8, scored_analysis 8 8, scored_analysis 8 8]) = 8"
  by (simp add: advance_all_def updateFlowState_fields unclamped_def streaks_after_classify_def
      fresh_flowState_def scored_analysis_def Math_round_blend_def)

text \<open>
  Claim C6, amended. From a fresh state with base difficulty 5, three rounds with
  \<open>overallScore \<ge> 7\<close> always end with \<open>consecutiveCorrect = 0\<close>; they end with
  \<open>currentDifficulty = 6\<close> when the suggested next difficulty of the first two
  analyses is 4, 5 or 6, the suggestions for which the blend keeps the difficulty at 5.
\<close>

theorem three_passes_from_5:
  assumes "7 \<le> overallScore a1" "7 \<le> overallScore a2" "7 \<le> overallScore a3"
  shows "consecutiveCorrect (advance_all tie_up (fresh_flowState sid rl stack 5 total_n) [a1, a2, a3]) = 0 \<and>
         (suggestedNextDifficulty a1 \<in> {4, 5, 6} \<and> suggestedNextDifficulty a2 \<in> {4, 5, 6} \<longrightarrow>
          currentDifficulty (advance_all tie_up (fresh_flowState sid rl stack 5 total_n) [a1, a2, a3]) = 6)"
proof -
  define s0 where "s0 = fresh_flowState sid rl stack 5 total_n"
  define s1 where "s1 = updateFlowState tie_up s0 a1"
  define s2 where "s2 = updateFlowState tie_up s1 a2"
  define s3 where "s3 = updateFlowState tie_up s2 a3"
  have run: "advance_all tie_up (fresh_flowState sid rl stack 5 total_n) [a1, a2, a3] = s3"
    by (simp add: advance_all_def s0_def s1_def s2_def s3_def)
  have f0: "currentDifficulty s0 = 5" "baseDifficulty s0 = 5" "consecutiveCorrect s0 = 0"
    "consecutiveIncorrect s0 = 0"
    by (simp_all add: s0_def fresh_flowState_def)
  have c1: "consecutiveCorrect s1 = 1"
    unfolding s1_def using pass_counts [OF assms(1) f0(3), of tie_up] by simp
  have c2: "consecutiveCorrect s2 = 2"
    unfolding s2_def using pass_counts [OF assms(2) c1, of tie_up] by simp
  have c3: "consecutiveCorrect s3 = 0"
    unfolding s3_def using third_pass [OF assms(3) c2] by simp
  have d: "currentDifficulty s3 = 6"
    if h: "suggestedNextDifficulty a1 \<in> {4, 5, 6} \<and> suggestedNextDifficulty a2 \<in> {4, 5, 6}"
  proof -
    have r1: "4 \<le> suggestedNextDifficulty a1" "suggestedNextDifficulty a1 \<le> 6"
      and r2: "4 \<le> suggestedNextDifficulty a2" "suggestedNextDifficulty a2 \<le> 6"
      using h by auto
    have p1: "currentDifficulty s1 = 5 \<and> baseDifficulty s1 = 5 \<and> consecutiveCorrect s1 = 0 + 1 \<and>
              consecutiveIncorrect s1 = 0"
      unfolding s1_def by (rule pass_from_5 [OF assms(1) f0(1) f0(2) f0(3) _ f0(4) r1]) simp
    have p2: "currentDifficulty s2 = 5 \<and> baseDifficulty s2 = 5 \<and> consecutiveCorrect s2 = 1 + 1 \<and>
              consecutiveIncorrect s2 = 0"
      unfolding s2_def using p1 by (intro pass_from_5 [OF assms(2) _ _ _ _ _ r2]) simp_all
    show ?thesis
      unfolding s3_def using third_pass [OF assms(3) c2, of tie_up] p2 by simp
  qed
  show ?thesis unfolding run using c3 d by blast
qed

theorem three_passes_from_5_witness:
  "7 \<le> overallScore (scored_analysis 8 5) \<and>
   suggestedNextDifficulty (scored_analysis 8 5) \<in> {4, 5, 6} \<and>
   consecutiveCorrect (advance_all half_up (fresh_flowState ''s1'' ''Frontend Developer'' [''React''] 5 10)
      [scored_analysis 8 5, scored_analysis 8 5, scored_analysis 8 5]) = 0 \<and>
   currentDifficulty (advance_all half_up (fresh_flowState ''s1'' ''Frontend Developer'' [''React''] 5 10)
      [scored_analysis 8 5, scored_analysis 8 5, scored_analysis 8 5]) = 6"
proof -
  have p: "7 \<le> overallScore (scored_analysis 8 5)" by (simp add: scored_analysis_def)
  have q: "suggestedNextDifficulty (scored_analysis 8 5) \<in> {4, 5, 6}" by (simp add: scored_analysis_def)
  show ?thesis
    using p q three_passes_from_5 [OF p p p, of half_up "''s1''" "''Frontend Developer''" "[''React'']" 10]
    by blast
qed

subsection \<open>The keyword merge\<close>

lemma mvpKeywords_retained:
  "\<exists>added. mvpKeywords (updateFlowState tie_up s a) = mvpKeywords s @ added \<and>
     set added \<subseteq> set (analysis_mvpKeywords a) - set (mvpKeywords s)"
  by (auto simp: updateFlowState_mvpKeywords)

lemma mvpKeywords_all_present:
  assumes "set (analysis_mvpKeywords a) \<subseteq> set (mvpKeywords s)"
  shows "mvpKeywords (updateFlowState tie_up s a) = mvpKeywords s"
proof -
  have "filter (\<lambda>keyword. keyword \<notin> set (mvpKeywords s)) (analysis_mvpKeywords a) = []"
    using assms by (auto simp: filter_empty_conv)
  then show ?thesis by (simp add: updateFlowState_mvpKeywords)
qed

lemma mvpKeywords_distinct:
  assumes "distinct (mvpKeywords s)" "distinct (analysis_mvpKeywords a)"
  shows "distinct (mvpKeywords (updateFlowState tie_up s a))"
  using assms by (auto simp: updateFlowState_mvpKeywords)

text \<open>
  Claim C7. The merge keeps the old keywords in front and appends only keywords that
  the state does not have yet (\<open>mvpKeywords_retained\<close>), and it changes nothing when
  all keywords of the analysis are already there (\<open>mvpKeywords_all_present\<close>). But
  the filter compares a new keyword with the old list only, not with the other new
  keywords: an analysis that names a new keyword twice puts it into the state twice.
  Here the state has no keywords and the analysis lists \<open>hooks\<close> twice.
\<close>

theorem duplicate_keywords_in_one_analysis:
  "distinct (mvpKeywords (fresh_flowState ''s1'' ''Frontend Developer'' [''React''] 5 10)) \<and>
   mvpKeywords (updateFlowState half_up (fresh_flowState ''s1'' ''Frontend Developer'' [''React''] 5 10)
      (keyword_analysis [''hooks'', ''hooks''])) = [''hooks'', ''hooks''] \<and>
   \<not> distinct (mvpKeywords (updateFlowState half_up
      (fresh_flowState ''s1'' ''Frontend Developer'' [''React''] 5 10)
      (keyword_analysis [''hooks'', ''hooks''])))"
  by (simp add: updateFlowState_mvpKeywords fresh_flowState_def keyword_analysis_def)

section \<open>Properties of the analyzer and of the initial questions\<close>

lemma as_ResponseAnalysis_default:
  "as_ResponseAnalysis (default_analysis cd) = Some (default_ResponseAnalysis cd)"
  by (simp add: as_ResponseAnalysis_def default_analysis_def default_ResponseAnalysis_def
      strings_field_def num_field_def str_field_def)

lemma as_ResponseAnalysis_empty_object: "as_ResponseAnalysis (JObj []) = None"
  by (simp add: as_ResponseAnalysis_def strings_field_def)

lemma trim_not_json: "trim ''not json'' = ''not json''"
  by (simp add: trim_def white_space_def starts_with_def)

lemma trim_braces: "trim ''{}'' = ''{}''"
  by (simp add: trim_def white_space_def starts_with_def)

lemma trim_brackets: "trim ''[]'' = ''[]''"
  by (simp add: trim_def white_space_def starts_with_def)

text \<open>
  Claim C3, as stated, fails for a reply with missing fields: the function returns
  whatever \<open>JSON.parse\<close> produced and checks no field. For the reply \<^verbatim>\<open>{}\<close>
  it returns the empty object, which has none of the required fields and is not the
  fallback.
\<close>

theorem analyze_missing_fields_counterexample:
  "fst (analyzeUserResponse sample_parse (Inr ''{}'') 5 empty_world) = Inr (JObj []) \<and>
   as_ResponseAnalysis (JObj []) = None \<and>
   fst (analyzeUserResponse sample_parse (Inr ''{}'') 5 empty_world) \<noteq> Inr (default_analysis 5)"
  by (simp add: analyzeUserResponse_def generateText_def trim_braces sample_parse_def
      as_ResponseAnalysis_empty_object default_analysis_def)

text \<open>
  Claim C3, amended. When the generation service returns a text that \<open>JSON.parse\<close>
  rejects, \<open>analyzeUserResponse\<close> returns exactly the fallback: the four scores 5,
  no keywords, the suggested difficulty equal to the current difficulty passed in, the
  reasoning \<open>Unable to analyze response properly\<close>; it returns normally and writes
  nothing. A text that parses is returned as parsed, whatever fields it has.
\<close>

theorem analyze_parse_failure_fallback:
  "(parse (trim text) = None \<longrightarrow>
      fst (analyzeUserResponse parse (Inr text) cd w) = Inr (default_analysis cd)) \<and>
   (\<forall>v. parse (trim text) = Some v \<longrightarrow>
      fst (analyzeUserResponse parse (Inr text) cd w) = Inr v) \<and>
   store (snd (analyzeUserResponse parse (Inr text) cd w)) = store w \<and>
   as_ResponseAnalysis (default_analysis cd) =
     Some \<lparr> analysis_mvpKeywords = [], confidence = 5, technicalAccuracy = 5, completeness = 5,
            overallScore = 5, suggestedNextDifficulty = cd,
            reasoning = ''Unable to analyze response properly'' \<rparr>"
  by (cases "parse (trim text)")
     (simp_all add: analyzeUserResponse_def generateText_def as_ResponseAnalysis_default
        default_ResponseAnalysis_def)

theorem analyze_parse_failure_fallback_witness:
  "sample_parse (trim ''not json'') = None \<and>
   fst (analyzeUserResponse sample_parse (Inr ''not json'') 7 empty_world) = Inr (default_analysis 7) \<and>
   sample_parse (trim ''{}'') = Some (JObj []) \<and>
   fst (analyzeUserResponse sample_parse (Inr ''{}'') 7 empty_world) = Inr (JObj [])"
proof -
  have n: "sample_parse (trim ''not json'') = None"
    by (simp add: trim_not_json sample_parse_def)
  have o: "sample_parse (trim ''{}'') = Some (JObj [])"
    by (simp add: trim_braces sample_parse_def)
  show ?thesis
    using n o analyze_parse_failure_fallback [of sample_parse "''not json''" 7 empty_world]
      analyze_parse_failure_fallback [of sample_parse "''{}''" 7 empty_world]
    by blast
qed

text \<open>
  The call of \<open>generateText\<close> itself stands outside the \<^verbatim>\<open>try\<close>: when it
  rejects, both functions reject.
\<close>

lemma generation_rejection_propagates:
  "fst (analyzeUserResponse parse (Inl e) cd w) = Inl e"
  "fst (generateInitialQuestions parse (Inl e) rl stack w) = Inl e"
  by (simp_all add: analyzeUserResponse_def generateInitialQuestions_def generateText_def)

text \<open>
  Claim C8, as stated, fails: a reply that parses is not checked for its length. For
  the reply \<^verbatim>\<open>[]\<close> the function returns the empty array, not three questions.
\<close>

theorem initial_questions_counterexample:
  "fst (generateInitialQuestions sample_parse (Inr ''[]'') ''Frontend Developer'' [''React''] empty_world)
     = Inr [] \<and>
   length ([] :: jsval list) \<noteq> 3"
  by (simp add: generateInitialQuestions_def generateText_def trim_brackets sample_parse_def)

text \<open>
  Claim C8, amended. When the generation service returns a text, the function returns
  normally: the three fixed fallback questions (role experience, first entry of the
  stack, learning a new technology) when \<open>JSON.parse\<close> rejects the text; the parsed
  array itself, of whatever length, when the text parses to an array; the empty array
  when it parses to anything else.
\<close>

theorem initial_questions_by_case:
  "(parse (trim text) = None \<longrightarrow>
      fst (generateInitialQuestions parse (Inr text) rl stack w) = Inr (fallback_questions rl stack)) \<and>
   (\<forall>qs. parse (trim text) = Some (JArr qs) \<longrightarrow>
      fst (generateInitialQuestions parse (Inr text) rl stack w) = Inr qs) \<and>
   (\<forall>v. parse (trim text) = Some v \<and> (\<forall>qs. v \<noteq> JArr qs) \<longrightarrow>
      fst (generateInitialQuestions parse (Inr text) rl stack w) = Inr []) \<and>
   length (fallback_questions rl stack) = 3 \<and>
   (\<forall>q \<in> set (fallback_questions rl stack). \<exists>s. q = JStr s) \<and>
   fallback_questions rl stack ! 0 = JStr (''Tell me about your experience with '' @ rl @ '' positions.'') \<and>
   fallback_questions rl stack ! 2 =
     JStr ''Describe a time when you had to learn a new technology quickly.''"
proof -
  have a: "parse (trim text) = None \<longrightarrow>
      fst (generateInitialQuestions parse (Inr text) rl stack w) = Inr (fallback_questions rl stack)"
    by (simp add: generateInitialQuestions_def generateText_def)
  have b: "\<forall>qs. parse (trim text) = Some (JArr qs) \<longrightarrow>
      fst (generateInitialQuestions parse (Inr text) rl stack w) = Inr qs"
    by (simp add: generateInitialQuestions_def generateText_def)
  have c: "\<forall>v. parse (trim text) = Some v \<and> (\<forall>qs. v \<noteq> JArr qs) \<longrightarrow>
      fst (generateInitialQuestions parse (Inr text) rl stack w) = Inr []"
    by (auto simp: generateInitialQuestions_def generateText_def split: jsval.splits)
  have d: "length (fallback_questions rl stack) = 3"
    "\<forall>q \<in> set (fallback_questions rl stack). \<exists>s. q = JStr s"
    "fallback_questions rl stack ! 0 = JStr (''Tell me about your experience with '' @ rl @ '' positions.'')"
    "fallback_questions rl stack ! 2 =
       JStr ''Describe a time when you had to learn a new technology quickly.''"
    by (simp_all add: fallback_questions_def)
  show ?thesis using a b c d by blast
qed

theorem initial_questions_by_case_witness:
  "sample_parse (trim ''not json'') = None \<and>
   fst (generateInitialQuestions sample_parse (Inr ''not json'') ''Frontend Developer'' [''React''] empty_world)
     = Inr [JStr ''Tell me about your experience with Frontend Developer positions.'',
            JStr ''How would you approach a challenging problem in React?'',
            JStr ''Describe a time when you had to learn a new technology quickly.''] \<and>
   sample_parse (trim ''[]'') = Some (JArr []) \<and>
   fst (generateInitialQuestions sample_parse (Inr ''[]'') ''Frontend Developer'' [''React''] empty_world)
     = Inr [] \<and>
   sample_parse (trim ''{}'') = Some (JObj []) \<and>
   fst (generateInitialQuestions sample_parse (Inr ''{}'') ''Frontend Developer'' [''React''] empty_world)
     = Inr [] \<and>
   JStr ''Describe a time when you had to learn a new technology quickly.''
     \<in> set (fallback_questions ''Frontend Developer'' [''React''])"
proof -
  have n: "sample_parse (trim ''not json'') = None"
    by (simp add: trim_not_json sample_parse_def)
  have a: "sample_parse (trim ''[]'') = Some (JArr [])"
    by (simp add: trim_brackets sample_parse_def)
  have o: "sample_parse (trim ''{}'') = Some (JObj [])"
    by (simp add: trim_braces sample_parse_def)
  have f: "fallback_questions ''Frontend Developer'' [''React''] =
     [JStr ''Tell me about your experience with Frontend Developer positions.'',
      JStr ''How would you approach a challenging problem in React?'',
      JStr ''Describe a time when you had to learn a new technology quickly.'']"
    by (simp add: fallback_questions_def)
  have m: "JStr ''Describe a time when you had to learn a new technology quickly.''
     \<in> set (fallback_questions ''Frontend Developer'' [''React''])"
    unfolding f by simp
  show ?thesis
    using n a o m
      initial_questions_by_case [of sample_parse "''not json''" "''Frontend Developer''" "[''React'']" empty_world]
      initial_questions_by_case [of sample_parse "''[]''" "''Frontend Developer''" "[''React'']" empty_world]
      initial_questions_by_case [of sample_parse "''{}''" "''Frontend Developer''" "[''React'']" empty_world]
    unfolding f by auto
qed

section \<open>Properties of the orchestrator and the endpoints\<close>

lemma db_set_ok:
  "db_set True key doc w = (Inr (), w\<lparr>store := (store w)(key \<mapsto> doc), calls := calls w @ [DbSet key]\<rparr>)"
  by (simp add: db_set_def)

lemma db_set_failed:
  "db_set False key doc w = (Inl PersistenceError, w\<lparr>calls := calls w @ [DbSet key]\<rparr>)"
  by (simp add: db_set_def)

lemma initializeFlowState_ok:
  "initializeFlowState True sid rl stack base total_n w =
     (Inr (fresh_flowState sid rl stack base total_n),
      w\<lparr>store := (store w)(sid \<mapsto> fresh_flowState sid rl stack base total_n),
        calls := calls w @ [DbSet sid]\<rparr>)"
  by (simp add: initializeFlowState_def db_set_ok Let_def)

lemma generateInitialQuestions_resolves:
  "\<exists>qs. generateInitialQuestions parse (Inr text) rl stack w =
          (Inr qs, w\<lparr>calls := calls w @ [GenerateText]\<rparr>)"
proof (cases "parse (trim text)")
  case None
  then show ?thesis by (simp add: generateInitialQuestions_def generateText_def)
next
  case (Some v)
  then show ?thesis
    by (cases v) (simp_all add: generateInitialQuestions_def generateText_def)
qed

lemma initialize_flow_missing_parameter:
  assumes "falsy_string (if_sessionId body) \<or> falsy_string (if_role body) \<or>
           falsy_techStack (if_techStack body) \<or> if_baseDifficulty body = None"
  shows "POST_initialize_flow env body w = (Status400 ''Missing required parameters'', w)"
  using assms by (auto simp: POST_initialize_flow_def)

text \<open>
  Claim C4, as stated, fails: neither \<open>initializeFlowState\<close> nor the endpoint
  compares \<open>baseDifficulty\<close> with any bound. A request with base difficulty 15 is
  answered with a flow state at difficulty 15.
\<close>

theorem initialize_out_of_range_counterexample:
  "\<not> in_scale 15 \<and>
   fst (POST_initialize_flow (sample_env True True) (sample_init_body 15) empty_world) =
     FlowInitialized (fresh_flowState ''s1'' ''Frontend Developer'' [''React''] 15 10)
       (fallback_questions ''Frontend Developer'' [''React'']) \<and>
   currentDifficulty (fresh_flowState ''s1'' ''Frontend Developer'' [''React''] 15 10) = 15"
  by (simp add: POST_initialize_flow_def sample_env_def sample_init_body_def falsy_string_def
      falsy_techStack_def techStack_array_def initializeFlowState_ok generateInitialQuestions_def
      generateText_def trim_not_json sample_parse_def in_scale_def fresh_flowState_def Let_def)

text \<open>
  Claim C4, amended. The endpoint rejects a request only when \<open>sessionId\<close>,
  \<open>role\<close>, \<open>techStack\<close> or \<open>baseDifficulty\<close> is missing. For every base
  difficulty that is supplied, on the scale or not, when the write succeeds and the
  generation service answers, it stores and returns a fresh state: both streak
  counters and \<open>questionsAsked\<close> 0, current difficulty equal to the base
  difficulty, no keywords, no history, and \<open>totalQuestions\<close> 10 when the request
  omits it.
\<close>

theorem initialize_flow_any_baseDifficulty:
  assumes "if_sessionId body = Some sid" "sid \<noteq> []" "if_role body = Some rl" "rl \<noteq> []"
    and "if_techStack body = Some stack" "\<not> falsy_techStack (Some stack)"
    and "if_baseDifficulty body = Some base"
    and "set_ok env 0" "generateText_reply env 0 = Inr text"
  shows "\<exists>fs qs w'. POST_initialize_flow env body w = (FlowInitialized fs qs, w') \<and>
           store w' sid = Some fs \<and>
           consecutiveCorrect fs = 0 \<and> consecutiveIncorrect fs = 0 \<and> questionsAsked fs = 0 \<and>
           currentDifficulty fs = base \<and> baseDifficulty fs = base \<and>
           mvpKeywords fs = [] \<and> questionHistory fs = [] \<and>
           (if_totalQuestions body = None \<longrightarrow> totalQuestions fs = 10)"
proof -
  define total_n where
    "total_n = (case if_totalQuestions body of None \<Rightarrow> (10::int) | Some n \<Rightarrow> if n = 0 then 10 else n)"
  define fs where "fs = fresh_flowState sid rl (techStack_array stack) base total_n"
  define w1 where "w1 = w\<lparr>store := (store w)(sid \<mapsto> fs), calls := calls w @ [DbSet sid]\<rparr>"
  obtain qs where g: "generateInitialQuestions (JSON_parse env) (Inr text) rl (techStack_array stack) w1
       = (Inr qs, w1\<lparr>calls := calls w1 @ [GenerateText]\<rparr>)"
    using generateInitialQuestions_resolves by blast
  define w2 where "w2 = w1\<lparr>calls := calls w1 @ [GenerateText]\<rparr>"
  have s2: "store w2 = store w1" by (simp add: w2_def)
  have "POST_initialize_flow env body w = (FlowInitialized fs qs, w2)"
    using assms g
    by (simp add: w2_def POST_initialize_flow_def falsy_string_def initializeFlowState_ok Let_def
        total_n_def [symmetric] fs_def [symmetric] w1_def [symmetric])
  moreover have "store w2 sid = Some fs" by (simp add: s2 w1_def)
  moreover have "consecutiveCorrect fs = 0 \<and> consecutiveIncorrect fs = 0 \<and> questionsAsked fs = 0 \<and>
           currentDifficulty fs = base \<and> baseDifficulty fs = base \<and>
           mvpKeywords fs = [] \<and> questionHistory fs = [] \<and>
           (if_totalQuestions body = None \<longrightarrow> totalQuestions fs = 10)"
    by (simp add: fs_def fresh_flowState_def total_n_def)
  ultimately show ?thesis
    by (intro exI [of _ fs] exI [of _ qs] exI [of _ w2]) simp
qed

theorem initialize_flow_any_baseDifficulty_witness:
  "if_sessionId (sample_init_body 15) = Some ''s1'' \<and> ''s1'' \<noteq> [] \<and>
   if_role (sample_init_body 15) = Some ''Frontend Developer'' \<and> ''Frontend Developer'' \<noteq> [] \<and>
   if_techStack (sample_init_body 15) = Some (StackArray [''React'']) \<and>
   \<not> falsy_techStack (Some (StackArray [''React''])) \<and>
   if_baseDifficulty (sample_init_body 15) = Some 15 \<and>
   if_totalQuestions (sample_init_body 15) = None \<and>
   set_ok (sample_env True True) 0 \<and>
   generateText_reply (sample_env True True) 0 = Inr ''not json'' \<and>
   (\<exists>fs qs w'. POST_initialize_flow (sample_env True True) (sample_init_body 15) empty_world =
        (FlowInitialized fs qs, w') \<and>
      store w' ''s1'' = Some fs \<and> questionsAsked fs = 0 \<and> currentDifficulty fs = 15 \<and>
      totalQuestions fs = 10)"
proof -
  have b: "if_sessionId (sample_init_body 15) = Some ''s1''" "''s1'' \<noteq> []"
    "if_role (sample_init_body 15) = Some ''Frontend Developer''" "''Frontend Developer'' \<noteq> []"
    "if_techStack (sample_init_body 15) = Some (StackArray [''React''])"
    "\<not> falsy_techStack (Some (StackArray [''React'']))"
    "if_baseDifficulty (sample_init_body 15) = Some 15"
    by (simp_all add: sample_init_body_def falsy_techStack_def)
  have t: "if_totalQuestions (sample_init_body 15) = None"
    by (simp add: sample_init_body_def)
  have e: "set_ok (sample_env True True) 0" "generateText_reply (sample_env True True) 0 = Inr ''not json''"
    by (simp_all add: sample_env_def)
  show ?thesis
    using b t e initialize_flow_any_baseDifficulty [OF b e, of empty_world] by blast
qed


































text \<open>
  Claim C10. When the stored state of the session has
  \<open>questionsAsked \<ge> totalQuestions\<close>, a request to the next-question endpoint leaves
  the store as it is and reaches neither the generation service nor a write, whatever
  else the request holds; when the request has its three fields and the read
  succeeds, the answer is the completed-interview response with the summary of the
  stored state, after exactly one read. The log of collaborator calls grows by at
  most that one read: the generation service and the writes are not reached.
\<close>

theorem completed_interview_untouched:
  assumes "nq_sessionId body = Some sid" "store w sid = Some flowState"
    and "totalQuestions flowState \<le> questionsAsked flowState"
  shows "store (snd (POST_next_question tie_up env body w)) = store w \<and>
         (calls (snd (POST_next_question tie_up env body w)) = calls w \<or>
          calls (snd (POST_next_question tie_up env body w)) = calls w @ [DbGet sid]) \<and>
         (sid \<noteq> [] \<and> \<not> falsy_string (nq_userResponse body) \<and>
          \<not> falsy_string (nq_currentQuestion body) \<and> get_ok env 0 \<longrightarrow>
            POST_next_question tie_up env body w =
              (InterviewCompleted (generateInterviewSummary flowState),
               w\<lparr>calls := calls w @ [DbGet sid]\<rparr>))"
proof (cases "falsy_string (nq_sessionId body) \<or> falsy_string (nq_userResponse body) \<or>
         falsy_string (nq_currentQuestion body)")
  case True
  then have "POST_next_question tie_up env body w = (Status400 ''Missing required parameters'', w)"
    by (simp add: POST_next_question_def)
  moreover have "sid = [] \<or> falsy_string (nq_userResponse body) \<or> falsy_string (nq_currentQuestion body)"
    using True assms(1) by (simp add: falsy_string_def)
  ultimately show ?thesis by auto
next
  case False
  show ?thesis
  proof (cases "get_ok env 0")
    case True
    have "POST_next_question tie_up env body w =
              (InterviewCompleted (generateInterviewSummary flowState),
               w\<lparr>calls := calls w @ [DbGet sid]\<rparr>)"
      using False True assms
      by (simp add: POST_next_question_def getFlowState_def shouldContinueInterview_def)
    then show ?thesis by simp
  next
    case g: False
    have "POST_next_question tie_up env body w =
              (Status404 ''Flow state not found. Please initialize first.'',
               w\<lparr>calls := calls w @ [DbGet sid]\<rparr>)"
      using False g assms
      by (simp add: POST_next_question_def getFlowState_def)
    then show ?thesis using g by simp
  qed
qed

theorem completed_interview_untouched_witness:
  "nq_sessionId sample_next_body = Some ''s1'' \<and>
   store finished_world ''s1'' = Some finished_state \<and>
   totalQuestions finished_state \<le> questionsAsked finished_state \<and>
   ''s1'' \<noteq> [] \<and> \<not> falsy_string (nq_userResponse sample_next_body) \<and>
   \<not> falsy_string (nq_currentQuestion sample_next_body) \<and> get_ok (sample_env True True) 0 \<and>
   POST_next_question half_up (sample_env True True) sample_next_body finished_world =
     (InterviewCompleted (generateInterviewSummary finished_state),
      finished_world\<lparr>calls := calls finished_world @ [DbGet ''s1'']\<rparr>) \<and>
   store (snd (POST_next_question half_up (sample_env True True) sample_next_body finished_world)) =
     store finished_world"
proof -
  have h: "nq_sessionId sample_next_body = Some ''s1''"
    "store finished_world ''s1'' = Some finished_state"
    "totalQuestions finished_state \<le> questionsAsked finished_state"
    by (simp_all add: sample_next_body_def finished_world_def finished_state_def sample_state_def
        fresh_flowState_def)
  have p: "''s1'' \<noteq> []" "\<not> falsy_string (nq_userResponse sample_next_body)"
    "\<not> falsy_string (nq_currentQuestion sample_next_body)" "get_ok (sample_env True True) 0"
    by (simp_all add: sample_next_body_def falsy_string_def sample_env_def)
  show ?thesis
    using h p completed_interview_untouched [OF h, of half_up "sample_env True True"] by blast
qed

section \<open>Properties of the interruption handler\<close>

lemma on_message_speech_start:
  assumes "msg_type m = ''speech-start''" "msg_role m = Some ''assistant''"
  shows "on_message now m c = invoke OnSpeechStart (c\<lparr>aiSpeechStartTime := Some now\<rparr>)"
  using assms by (simp add: on_message_def Let_def)

lemma on_message_user_partial:
  assumes "msg_type m = ''transcript''" "msg_role m = Some ''user''"
    "transcriptType m = Some ''partial''" "aiSpeechStartTime c = Some t" "t \<noteq> 0"
  shows "on_message now m c = invoke OnInterruption (c\<lparr>handler := recordInterruption t now (handler c)\<rparr>)"
  using assms by (simp add: on_message_def Let_def truthy_time_def record_at_def)

lemma on_message_unset:
  assumes "aiSpeechStartTime c = None" "interruption_class m"
  shows "handler (on_message now m c) = handler c \<and> aiSpeechStartTime (on_message now m c) = None"
  using assms
  by (auto simp: on_message_def Let_def truthy_time_def interruption_class_def invoke_def)

lemma recordInterruption_times:
  "interruptionTimes (recordInterruption t now h) = interruptionTimes h @ [now - t]"
  "totalInterruptions (metrics (recordInterruption t now h)) = totalInterruptions (metrics h) + 1"
  "lastInterruptionTime (metrics (recordInterruption t now h)) = Some now"
  by (simp_all add: recordInterruption_def Let_def)

text \<open>
  Claim C9. First part: after a speech-start message of the assistant at clock reading
  \<open>t0\<close> and a partial user transcript with non-empty text at \<open>t0 + dt\<close>, the
  handler has recorded exactly one more interruption, with delay \<open>dt\<close>. The clock
  reading \<open>t0\<close> is assumed positive, as every reading of \<^verbatim>\<open>Date.now()\<close>
  after 1970 is: the handler tests the stored time for truthiness, and 0 is falsy. Second part: while
  \<open>aiSpeechStartTime\<close> is unset, an event of any of the four interruption classes
  leaves the handler object, and so its metrics and delays, unchanged, and the
  variable stays unset. The model has no failing branch, as the source has no
  \<^verbatim>\<open>throw\<close>.
\<close>

theorem interruption_recorded_once:
  "(0 < t0 \<and> msg_type m1 = ''speech-start'' \<and> msg_role m1 = Some ''assistant'' \<and>
    msg_type m2 = ''transcript'' \<and> msg_role m2 = Some ''user'' \<and>
    transcriptType m2 = Some ''partial'' \<and> transcript m2 = Some words \<and> words \<noteq> [] \<longrightarrow>
      interruptionTimes (handler (on_message (t0 + dt) m2 (on_message t0 m1 c))) =
        interruptionTimes (handler c) @ [dt] \<and>
      totalInterruptions (metrics (handler (on_message (t0 + dt) m2 (on_message t0 m1 c)))) =
        totalInterruptions (metrics (handler c)) + 1) \<and>
   (aiSpeechStartTime c = None \<and> interruption_class m \<longrightarrow>
      handler (on_message now m c) = handler c \<and>
      aiSpeechStartTime (on_message now m c) = None)"
proof (intro conjI impI)
  assume h: "0 < t0 \<and> msg_type m1 = ''speech-start'' \<and> msg_role m1 = Some ''assistant'' \<and>
    msg_type m2 = ''transcript'' \<and> msg_role m2 = Some ''user'' \<and>
    transcriptType m2 = Some ''partial'' \<and> transcript m2 = Some words \<and> words \<noteq> []"
  define c1 where "c1 = on_message t0 m1 c"
  have c1: "c1 = invoke OnSpeechStart (c\<lparr>aiSpeechStartTime := Some t0\<rparr>)"
    unfolding c1_def using h by (intro on_message_speech_start) simp_all
  have s: "aiSpeechStartTime c1 = Some t0" and hc: "handler c1 = handler c"
    by (simp_all add: c1 invoke_def)
  have c2: "on_message (t0 + dt) m2 c1 =
      invoke OnInterruption (c1\<lparr>handler := recordInterruption t0 (t0 + dt) (handler c1)\<rparr>)"
    using h s by (intro on_message_user_partial) simp_all
  show "interruptionTimes (handler (on_message (t0 + dt) m2 (on_message t0 m1 c))) =
        interruptionTimes (handler c) @ [dt]"
    unfolding c1_def [symmetric] c2 by (simp add: invoke_def recordInterruption_times hc)
  show "totalInterruptions (metrics (handler (on_message (t0 + dt) m2 (on_message t0 m1 c)))) =
        totalInterruptions (metrics (handler c)) + 1"
    unfolding c1_def [symmetric] c2 by (simp add: invoke_def recordInterruption_times hc)
next
  assume "aiSpeechStartTime c = None \<and> interruption_class m"
  then show "handler (on_message now m c) = handler c"
    and "aiSpeechStartTime (on_message now m c) = None"
    using on_message_unset [of c m now] by simp_all
qed

theorem interruption_recorded_once_witness:
  "(0::int) < 1000 \<and> msg_type speech_start_assistant = ''speech-start'' \<and>
   msg_role speech_start_assistant = Some ''assistant'' \<and>
   msg_type (user_partial ''wait'') = ''transcript'' \<and> msg_role (user_partial ''wait'') = Some ''user'' \<and>
   transcriptType (user_partial ''wait'') = Some ''partial'' \<and>
   transcript (user_partial ''wait'') = Some ''wait'' \<and> ''wait'' \<noteq> [] \<and>
   interruptionTimes (handler (on_message (1000 + 250) (user_partial ''wait'')
       (on_message 1000 speech_start_assistant sample_handler))) = [250] \<and>
   aiSpeechStartTime sample_handler = None \<and> interruption_class user_interrupted \<and>
   handler (on_message 1000 user_interrupted sample_handler) = handler sample_handler"
proof -
  have m: "msg_type speech_start_assistant = ''speech-start''"
    "msg_role speech_start_assistant = Some ''assistant''"
    "msg_type (user_partial ''wait'') = ''transcript''" "msg_role (user_partial ''wait'') = Some ''user''"
    "transcriptType (user_partial ''wait'') = Some ''partial''"
    "transcript (user_partial ''wait'') = Some ''wait''"
    by (simp_all add: speech_start_assistant_def user_partial_def)
  have u: "aiSpeechStartTime sample_handler = None" "interruption_class user_interrupted"
    "interruptionTimes (handler sample_handler) = []"
    by (simp_all add: sample_handler_def createInterruptionAwareMessageHandler_def
        new_InterruptionHandler_def interruption_class_def user_interrupted_def)
  show ?thesis
    using m u
      interruption_recorded_once [of 1000 speech_start_assistant "user_partial ''wait''" "''wait''"
        250 sample_handler user_interrupted 1000]
    by simp
qed

end
